theory Spec2Isabelle
  imports Complex_Main
begin

section \<open>Values read from the backtesting framework\<close>

text \<open>
  The strategy of \<^verbatim>\<open>trading_strategy.py\<close> reads indicator lines, the broker value and the
  position from the framework it runs in. An indicator value is a float that is NaN before
  the indicator has enough history; \<open>None\<close> stands for NaN, and a comparison with NaN is
  false, as in Python. The values read are finite reals; the arithmetic that \<open>next\<close>
  does on them is the arithmetic of Python's floats, modelled below.
\<close>

type_synonym line_value = "real option"

definition lt_line :: "line_value \<Rightarrow> line_value \<Rightarrow> bool" where
  "lt_line a b = (case a of None \<Rightarrow> False
                  | Some x \<Rightarrow> (case b of None \<Rightarrow> False | Some y \<Rightarrow> x < y))"

definition gt_line :: "line_value \<Rightarrow> line_value \<Rightarrow> bool" where
  "gt_line a b = (case a of None \<Rightarrow> False
                  | Some x \<Rightarrow> (case b of None \<Rightarrow> False | Some y \<Rightarrow> x > y))"

subsection \<open>Python's floats\<close>

text \<open>
  A Python float is an IEEE 754 binary64 value: a finite real, an infinity or NaN. The result
  of a multiplication or division is the exact result rounded to the nearest double, ties to
  the even significand; a result beyond the largest double is an infinity. \<open>binade x\<close> is
  the exponent \<open>e\<close> with \<open>2 ^ e \<le> x < 2 ^ (e + 1)\<close> for a positive \<open>x\<close>; doubles have
  53 significant bits down to the exponent -1022, below which the spacing stays
  \<open>2 ^ -1074\<close>.
\<close>

datatype py_error = OverflowError | ValueError | ZeroDivisionError

datatype pyfloat = Fin real | PosInf | NegInf | NaN

fun bit_length :: "nat \<Rightarrow> nat" where
  "bit_length n = (if n = 0 then 0 else Suc (bit_length (n div 2)))"

declare bit_length.simps [simp del]

definition binade :: "real \<Rightarrow> int" where
  "binade x = (if 1 \<le> x then int (bit_length (nat \<lfloor>x\<rfloor>)) - 1
               else - int (bit_length (nat (\<lceil>1 / x\<rceil> - 1))))"

definition pow2 :: "int \<Rightarrow> real" where
  "pow2 k = (if 0 \<le> k then 2 ^ nat k else 1 / 2 ^ nat (- k))"

definition round_half_even :: "real \<Rightarrow> int" where
  "round_half_even x =
     (let f = \<lfloor>x\<rfloor>; d = x - of_int f
      in if d < 1 / 2 then f else if 1 / 2 < d then f + 1 else if even f then f else f + 1)"

definition to_double :: "real \<Rightarrow> pyfloat" where
  "to_double x =
     (if x = 0 then Fin 0
      else
        (let e = max (binade \<bar>x\<bar>) (- 1022);
             ulp = pow2 (e - 52);
             r = of_int (round_half_even (x / ulp)) * ulp
         in if pow2 1024 \<le> \<bar>r\<bar> then (if 0 < x then PosInf else NegInf) else Fin r))"

text \<open>The product of two finite floats.\<close>

definition fmul :: "real \<Rightarrow> real \<Rightarrow> pyfloat" where
  "fmul x y = to_double (x * y)"

text \<open>
  Python's \<open>a / b\<close> on floats: a zero divisor raises, whatever the dividend; otherwise the
  IEEE quotient.
\<close>

fun fdiv :: "pyfloat \<Rightarrow> pyfloat \<Rightarrow> py_error + pyfloat" where
  "fdiv a (Fin y) =
     (if y = 0 then Inl ZeroDivisionError
      else (case a of
              Fin x \<Rightarrow> Inr (to_double (x / y))
            | PosInf \<Rightarrow> Inr (if 0 < y then PosInf else NegInf)
            | NegInf \<Rightarrow> Inr (if 0 < y then NegInf else PosInf)
            | NaN \<Rightarrow> Inr NaN))"
| "fdiv (Fin x) PosInf = Inr (Fin 0)"
| "fdiv (Fin x) NegInf = Inr (Fin 0)"
| "fdiv a b = Inr NaN"

text \<open>
  Python's \<open>int(x)\<close> on a float truncates towards zero; it raises OverflowError on an
  infinity and ValueError on NaN.
\<close>

fun py_int :: "pyfloat \<Rightarrow> py_error + int" where
  "py_int (Fin x) = Inr (if 0 \<le> x then \<lfloor>x\<rfloor> else \<lceil>x\<rceil>)"
| "py_int PosInf = Inl OverflowError"
| "py_int NegInf = Inl OverflowError"
| "py_int NaN = Inl ValueError"

text \<open>Python's \<open>any\<close> on a list of booleans.\<close>

definition any_py :: "bool list \<Rightarrow> bool" where
  "any_py bs = list_ex (\<lambda>b. b) bs"

subsection \<open>Parameters of the strategy\<close>

record params =
  macd1 :: nat
  macd2 :: nat
  macdsig :: nat
  rsi_period :: nat
  rsi_upper :: real
  rsi_lower :: real
  kdj_period :: nat
  kdj_slow :: nat
  kdj_fast :: nat
  boll_period :: nat
  boll_dev :: real
  risk_percent :: real

text \<open>
  The defaults of the class. The literal \<open>0.02\<close> is the double nearest to 2/100, which is
  \<open>5764607523034235 / 2 ^ 58\<close>; the other values are doubles as they are written.
\<close>

definition default_params :: params where
  "default_params = \<lparr> macd1 = 12, macd2 = 26, macdsig = 9, rsi_period = 14,
     rsi_upper = 70, rsi_lower = 30, kdj_period = 9, kdj_slow = 3, kdj_fast = 3,
     boll_period = 20, boll_dev = 2,
     risk_percent = 5764607523034235 / 288230376151711744 \<rparr>"

subsection \<open>Orders\<close>

text \<open>
  The status constants of the framework's order class. \<open>notify_order\<close> names six of them
  (Submitted, Accepted, Completed, Canceled, Margin, Rejected); the framework has three
  more, which reach the last line of \<open>notify_order\<close> like every status that is not
  Submitted or Accepted.
\<close>

datatype order_status =
  Created | Submitted | Accepted | Partial | Completed | Canceled | Expired | Margin | Rejected

text \<open>
  What the strategy asks for with \<open>self.buy(size=...)\<close> or \<open>self.sell(size=...)\<close> and
  keeps in \<open>self.order\<close>; a notified order carries its status and what was executed.
\<close>

record order =
  isbuy :: bool
  order_size :: int

record notified_order = order +
  status :: order_status
  executed_price :: real
  executed_value :: real
  executed_comm :: real

definition buy :: "int \<Rightarrow> order" where
  "buy sz = \<lparr> isbuy = True, order_size = sz \<rparr>"

definition sell :: "int \<Rightarrow> order" where
  "sell sz = \<lparr> isbuy = False, order_size = sz \<rparr>"

subsection \<open>The strategy object\<close>

datatype log_entry =
  BuyCreate real
  | SellCreate real
  | InvalidPrice
  | BuyExecuted real real real
  | SellExecuted real real real
  | OrderCanceled

record strategy =
  order :: "order option"
  buyprice :: "real option"
  buycomm :: "real option"
  bar_executed :: "nat option"
  portfolio_values :: "real list"
  dates :: "nat list"
  logs :: "log_entry list"

text \<open>The fields as \<open>__init__\<close> leaves them (\<open>bar_executed\<close> does not exist yet).\<close>

definition init_strategy :: strategy where
  "init_strategy = \<lparr> order = None, buyprice = None, buycomm = None, bar_executed = None,
     portfolio_values = [], dates = [], logs = [] \<rparr>"

definition log_line :: "log_entry \<Rightarrow> strategy \<Rightarrow> strategy" where
  "log_line e s = s\<lparr> logs := logs s @ [e] \<rparr>"

text \<open>
  What \<open>next\<close> reads at the current bar: the position and the value held by the broker, the
  bar's close and timestamp, and the indicator lines at index 0 (\<open>_cur\<close>) and -1 (\<open>_prev\<close>).
  \<open>j_cur\<close> is the line \<open>self.j\<close> of \<open>__init__\<close>.
\<close>

record bar_view =
  position_size :: int
  broker_value :: real
  close :: real
  datetime :: nat
  macd_prev :: line_value
  macdsignal_prev :: line_value
  macd_cur :: line_value
  macdsignal_cur :: line_value
  rsi_cur :: line_value
  k_prev :: line_value
  d_prev :: line_value
  k_cur :: line_value
  d_cur :: line_value
  j_cur :: line_value
  boll_bot :: line_value
  boll_top :: line_value

text \<open>The line \<open>self.j = 3 * self.k - 2 * self.d\<close>; NaN in either operand gives NaN.\<close>

definition j_line :: "line_value \<Rightarrow> line_value \<Rightarrow> line_value" where
  "j_line k d = (case k of None \<Rightarrow> None
                 | Some x \<Rightarrow> (case d of None \<Rightarrow> None | Some y \<Rightarrow> Some (3 * x - 2 * y)))"

section \<open>The strategy's callbacks\<close>

definition macd_cross_up :: "bar_view \<Rightarrow> bool" where
  "macd_cross_up v =
     (lt_line (macd_prev v) (macdsignal_prev v) \<and> gt_line (macd_cur v) (macdsignal_cur v))"

definition macd_cross_down :: "bar_view \<Rightarrow> bool" where
  "macd_cross_down v =
     (gt_line (macd_prev v) (macdsignal_prev v) \<and> lt_line (macd_cur v) (macdsignal_cur v))"

definition kd_cross_up :: "bar_view \<Rightarrow> bool" where
  "kd_cross_up v = (lt_line (k_prev v) (d_prev v) \<and> gt_line (k_cur v) (d_cur v))"

definition kd_cross_down :: "bar_view \<Rightarrow> bool" where
  "kd_cross_down v = (gt_line (k_prev v) (d_prev v) \<and> lt_line (k_cur v) (d_cur v))"

definition buy_conditions :: "params \<Rightarrow> bar_view \<Rightarrow> bool list" where
  "buy_conditions p v =
     [ macd_cross_up v,
       lt_line (rsi_cur v) (Some (rsi_lower p)),
       kd_cross_up v,
       lt_line (Some (close v)) (boll_bot v) ]"

definition sell_conditions :: "params \<Rightarrow> bar_view \<Rightarrow> bool list" where
  "sell_conditions p v =
     [ macd_cross_down v,
       gt_line (rsi_cur v) (Some (rsi_upper p)),
       kd_cross_down v,
       gt_line (Some (close v)) (boll_top v) ]"

text \<open>The last two statements of \<open>next\<close>.\<close>

definition record_value :: "bar_view \<Rightarrow> strategy \<Rightarrow> strategy" where
  "record_value v s =
     s\<lparr> portfolio_values := portfolio_values s @ [broker_value v],
        dates := dates s @ [datetime v] \<rparr>"

text \<open>
  The literal \<open>1.01\<close> of the buy branch is the double nearest to 101/100, which is
  \<open>4548635623644201 / 2 ^ 52\<close>.
\<close>

definition buffer_1_01 :: real where
  "buffer_1_01 = 4548635623644201 / 4503599627370496"

text \<open>
  The quotient \<open>risk_amount / (close * 1.01)\<close> of the buy branch, in floats, and the size
  computed from it: \<open>int\<close> of the quotient, then \<open>max(1, size)\<close>.
\<close>

definition sizer_quotient :: "params \<Rightarrow> bar_view \<Rightarrow> py_error + pyfloat" where
  "sizer_quotient p v =
     (let risk_amount = fmul (broker_value v) (risk_percent p)
      in fdiv risk_amount (fmul (close v) buffer_1_01))"

definition position_sizer :: "params \<Rightarrow> bar_view \<Rightarrow> py_error + int" where
  "position_sizer p v =
     (case sizer_quotient p v of
        Inl err \<Rightarrow> Inl err
      | Inr q \<Rightarrow> (case py_int q of Inl err \<Rightarrow> Inl err | Inr sz \<Rightarrow> Inr (max 1 sz)))"

text \<open>
  The method \<open>next\<close>. Each \<open>return\<close> of the source is a branch that leaves at once with
  the state; an exception raised by the size computation leaves \<open>next\<close> as an error.
\<close>

definition next_bar :: "params \<Rightarrow> bar_view \<Rightarrow> strategy \<Rightarrow> py_error + strategy" where
  "next_bar p v s =
     (if order s \<noteq> None then Inr s
      else if position_size v = 0 then
        (if any_py (buy_conditions p v) then
           (let s1 = log_line (BuyCreate (close v)) s in
            if close v > 0 then
              (case position_sizer p v of
                 Inl err \<Rightarrow> Inl err
               | Inr sz \<Rightarrow> Inr (record_value v (s1\<lparr> order := Some (buy sz) \<rparr>)))
            else Inr (log_line InvalidPrice s1))
         else Inr (record_value v s))
      else
        (if any_py (sell_conditions p v) then
           Inr (record_value v
             ((log_line (SellCreate (close v)) s)\<lparr> order := Some (sell (position_size v)) \<rparr>))
         else Inr (record_value v s)))"

text \<open>The method \<open>notify_order\<close>; \<open>len_self\<close> is \<open>len(self)\<close>, the bars seen so far.\<close>

definition notify_order :: "nat \<Rightarrow> notified_order \<Rightarrow> strategy \<Rightarrow> strategy" where
  "notify_order len_self n s =
     (if status n \<in> {Submitted, Accepted} then s
      else
        (let s1 =
           (if status n \<in> {Completed} then
              (if isbuy n then
                 (log_line (BuyExecuted (executed_price n) (executed_value n) (executed_comm n)) s)
                   \<lparr> buyprice := Some (executed_price n), buycomm := Some (executed_comm n) \<rparr>
               else
                 log_line (SellExecuted (executed_price n) (executed_value n) (executed_comm n)) s)
              \<lparr> bar_executed := Some len_self \<rparr>
            else if status n \<in> {Canceled, Margin, Rejected} then log_line OrderCanceled s
            else s)
         in s1\<lparr> order := None \<rparr>))"

section \<open>Runs: the framework's calls in order\<close>

text \<open>
  The framework calls \<open>notify_order\<close> when the broker reports on an order and \<open>next\<close>
  once for a bar. A run is the list of these calls, and the strategy is the state they
  pass on; an exception raised in \<open>next\<close> ends the run.
\<close>

datatype event = Notify nat notified_order | Bar bar_view

fun step :: "params \<Rightarrow> strategy \<Rightarrow> event \<Rightarrow> py_error + strategy" where
  "step p s (Notify len_self n) = Inr (notify_order len_self n s)"
| "step p s (Bar v) = next_bar p v s"

fun run :: "params \<Rightarrow> event list \<Rightarrow> strategy \<Rightarrow> py_error + strategy" where
  "run p [] s = Inr s"
| "run p (e # es) s = (case step p s e of Inl err \<Rightarrow> Inl err | Inr s' \<Rightarrow> run p es s')"

text \<open>
  The order that an event creates: the one that a call of \<open>next\<close> puts into the empty
  slot. The orders of a run are collected in the order of their creation.
\<close>

fun new_order :: "params \<Rightarrow> strategy \<Rightarrow> event \<Rightarrow> order option" where
  "new_order p s (Notify len_self n) = None"
| "new_order p s (Bar v) =
     (if order s = None
      then (case next_bar p v s of Inl err \<Rightarrow> None | Inr s' \<Rightarrow> order s')
      else None)"

fun orders_created :: "params \<Rightarrow> strategy \<Rightarrow> event list \<Rightarrow> order list" where
  "orders_created p s [] = []"
| "orders_created p s (e # es) =
     (case new_order p s e of None \<Rightarrow> [] | Some c \<Rightarrow> [c])
     @ (case step p s e of Inl err \<Rightarrow> [] | Inr s' \<Rightarrow> orders_created p s' es)"

text \<open>The recorded portfolio values at the end of a run, when it ends without an exception.\<close>

definition recorded :: "py_error + strategy \<Rightarrow> py_error + real list" where
  "recorded r = (case r of Inl err \<Rightarrow> Inl err | Inr s \<Rightarrow> Inr (portfolio_values s))"

text \<open>The same event with another value of the J line.\<close>

fun set_j :: "(bar_view \<Rightarrow> line_value) \<Rightarrow> event \<Rightarrow> event" where
  "set_j f (Notify len_self n) = Notify len_self n"
| "set_j f (Bar v) = Bar (v\<lparr> j_cur := f v \<rparr>)"

subsection \<open>Views of single bars\<close>

text \<open>
  Concrete views on which the callbacks are evaluated: \<open>v_buy\<close> is a flat account with
  a MACD crossover at a close of 100, \<open>v_skip\<close> a flat account with an RSI of 25 at a
  close of 0.
\<close>

definition v_buy :: bar_view where
  "v_buy = \<lparr> position_size = 0, broker_value = 100000, close = 100, datetime = 35,
     macd_prev = Some (-1), macdsignal_prev = Some 0, macd_cur = Some 1, macdsignal_cur = Some 0,
     rsi_cur = Some 50, k_prev = Some 40, d_prev = Some 40, k_cur = Some 40, d_cur = Some 40,
     j_cur = Some 40, boll_bot = Some 90, boll_top = Some 110 \<rparr>"

definition v_skip :: bar_view where
  "v_skip = \<lparr> position_size = 0, broker_value = 100000, close = 0, datetime = 36,
     macd_prev = Some 0, macdsignal_prev = Some 0, macd_cur = Some 0, macdsignal_cur = Some 0,
     rsi_cur = Some 25, k_prev = Some 40, d_prev = Some 40, k_cur = Some 40, d_cur = Some 40,
     j_cur = Some 40, boll_bot = Some 90, boll_top = Some 110 \<rparr>"

text \<open>
  Modelled from the spec: the broker that fills orders is the framework's and is not part of
  the strategy's source. Section 4.4 of the specification: a filled Buy takes the position
  from Flat to Long by the order's size, a filled Sell of the position takes it back.
\<close>

definition fill_position :: "order \<Rightarrow> int \<Rightarrow> int" where
  "fill_position c pos = (if isbuy c then pos + order_size c else pos - order_size c)"

text \<open>
  \<open>v_sell\<close> is a position of 19 with an RSI of 75; in \<open>v_warmup\<close> no indicator has
  both of the values that a condition needs.
\<close>

definition v_sell :: bar_view where
  "v_sell = \<lparr> position_size = 19, broker_value = 100500, close = 120, datetime = 37,
     macd_prev = Some 1, macdsignal_prev = Some 0, macd_cur = Some 1, macdsignal_cur = Some 0,
     rsi_cur = Some 75, k_prev = Some 40, d_prev = Some 40, k_cur = Some 40, d_cur = Some 40,
     j_cur = Some 40, boll_bot = Some 90, boll_top = Some 130 \<rparr>"

definition v_warmup :: bar_view where
  "v_warmup = \<lparr> position_size = 0, broker_value = 100000, close = 100, datetime = 3,
     macd_prev = None, macdsignal_prev = None, macd_cur = Some 1, macdsignal_cur = None,
     rsi_cur = None, k_prev = None, d_prev = None, k_cur = Some 60, d_cur = Some 40,
     j_cur = None, boll_bot = None, boll_top = None \<rparr>"

text \<open>
  \<open>v_round\<close> is a flat account worth 909 with an RSI of 25 at a close of 3; in
  \<open>v_tiny\<close> the close is the positive double \<open>2 ^ -1060\<close>.
\<close>

definition v_round :: bar_view where
  "v_round = \<lparr> position_size = 0, broker_value = 909, close = 3, datetime = 38,
     macd_prev = Some 0, macdsignal_prev = Some 0, macd_cur = Some 0, macdsignal_cur = Some 0,
     rsi_cur = Some 25, k_prev = Some 40, d_prev = Some 40, k_cur = Some 40, d_cur = Some 40,
     j_cur = Some 40, boll_bot = Some 2, boll_top = Some 4 \<rparr>"

definition v_tiny :: bar_view where
  "v_tiny = \<lparr> position_size = 0, broker_value = 100000, close = 1 / 2 ^ 1060, datetime = 39,
     macd_prev = Some 0, macdsignal_prev = Some 0, macd_cur = Some 0, macdsignal_cur = Some 0,
     rsi_cur = Some 25, k_prev = Some 40, d_prev = Some 40, k_cur = Some 40, d_cur = Some 40,
     j_cur = Some 40, boll_bot = Some 2, boll_top = Some 4 \<rparr>"

subsection \<open>Outstanding orders\<close>

text \<open>
  The orders that the broker holds are not a field of the strategy. An order is outstanding
  from the call of \<open>buy\<close> or \<open>sell\<close> that creates it until the framework notifies that
  it has ended: completed, canceled, expired, refused for margin or rejected. The list
  gives the number of outstanding orders after each event of a run that starts with \<open>k\<close>.
\<close>

definition ended :: "order_status \<Rightarrow> bool" where
  "ended st = (st \<in> {Completed, Canceled, Expired, Margin, Rejected})"

fun outstanding :: "params \<Rightarrow> strategy \<Rightarrow> nat \<Rightarrow> event list \<Rightarrow> nat list" where
  "outstanding p s k [] = []"
| "outstanding p s k (e # es) =
     (let k' = (case e of
                  Bar v \<Rightarrow> (if new_order p s e = None then k else k + 1)
                | Notify len_self n \<Rightarrow> (if ended (status n) then k - 1 else k))
      in k' # (case step p s e of Inl err \<Rightarrow> [] | Inr s' \<Rightarrow> outstanding p s' k' es))"

text \<open>
  What the broker that \<open>run_backtest\<close> sets up reports on the orders of \<open>next\<close>. These
  are market orders for a whole size, with no volume filler and no validity: such an order
  is submitted and accepted, and then it completes, or it is refused (Margin, Rejected) or
  canceled. It is never reported as created, partly filled or expired.
\<close>

fun market_notice :: "event \<Rightarrow> bool" where
  "market_notice (Notify len_self n) =
     (status n \<in> {Submitted, Accepted, Completed, Canceled, Margin, Rejected})"
| "market_notice (Bar v) = True"

text \<open>The report that the Buy order of 19 was filled.\<close>

definition n_completed :: notified_order where
  "n_completed = \<lparr> isbuy = True, order_size = 19, status = Completed,
     executed_price = 101, executed_value = 1919, executed_comm = 1919 / 1000 \<rparr>"

section \<open>The backtest driver\<close>

text \<open>A row of the data frame that \<open>fetch_stock_data\<close> returns, indexed by its date.\<close>

record row =
  date :: nat
  Open :: real
  High :: real
  Low :: real
  Close :: real
  Volume :: real

text \<open>
  What \<open>run_backtest\<close> does is a sequence of prints and of calls on the framework. The
  float literals are given by their decimal values; the values printed are the broker's.
\<close>

datatype action =
  AddStrategy
  | PrintNoData
  | AddData "row list"
  | SetCash real
  | AddSizer nat
  | SetCommission real
  | PrintStartValue
  | Run
  | Raised py_error
  | PrintFinalValue
  | Plot
  | PrintNoValues
  | Report "nat list" "real list"

text \<open>
  \<open>run_backtest\<close> up to its call of \<open>cerebro.run()\<close>. The data frame is \<open>None\<close> when
  the fetch failed; on no data the function prints and returns at once.
\<close>

definition before_run :: "row list option \<Rightarrow> action list" where
  "before_run df =
     (case df of
        None \<Rightarrow> [AddStrategy, PrintNoData]
      | Some rows \<Rightarrow>
          if rows = [] then [AddStrategy, PrintNoData]
          else [AddStrategy, AddData rows, SetCash 100000, AddSizer 10,
                SetCommission (1 / 1000), PrintStartValue, Run])"

text \<open>
  \<open>run_backtest\<close> after \<open>cerebro.run()\<close>, which has raised or has returned the
  strategy: the second \<open>return\<close> is taken when the strategy recorded nothing, otherwise the
  recorded series goes on to the returns and the report.
\<close>

definition after_run :: "py_error + strategy \<Rightarrow> action list" where
  "after_run res =
     (case res of
        Inl err \<Rightarrow> [Raised err]
      | Inr strat \<Rightarrow>
          [PrintFinalValue, Plot]
          @ (if length (portfolio_values strat) = 0 then [PrintNoValues]
             else [Report (dates strat) (portfolio_values strat)]))"

text \<open>The whole of \<open>run_backtest\<close>; \<open>res\<close> is the outcome of \<open>cerebro.run()\<close>.\<close>

definition run_backtest :: "row list option \<Rightarrow> py_error + strategy \<Rightarrow> action list" where
  "run_backtest df res =
     (if Run \<in> set (before_run df) then before_run df @ after_run res else before_run df)"

text \<open>
  Sixty daily rows whose prices move up and down; on day 30 the close and the volume are 0
  and the low is negative.
\<close>

definition bad_row :: "nat \<Rightarrow> row" where
  "bad_row i =
     (if i = 30 then \<lparr> date = i, Open = 100, High = 100, Low = - 1, Close = 0, Volume = 0 \<rparr>
      else \<lparr> date = i, Open = 100 + real (i mod 7), High = 104 + real (i mod 7),
             Low = 97 + real (i mod 7), Close = 100 + real ((3 * i) mod 7), Volume = 1000 \<rparr>)"

definition bad_rows :: "row list" where
  "bad_rows = map bad_row [1..<61]"

section \<open>The RSI indicator\<close>

text \<open>
  Modelled from the spec: the RSI line is computed by the framework's indicator
  (\<open>bt.indicators.RSI\<close> in \<open>__init__\<close>), whose code is not part of the source. Section 4.1
  of the specification: ``RSI(period): Wilder's smoothed average of gains/losses over period
  bars; undefined for indices < period''. The gain of a bar is the rise of its close over
  the previous close and the loss is the fall; the first average is the mean of the first
  \<open>period\<close> gains (losses), every later one is
  \<open>(previous * (period - 1) + current) / period\<close>, and the value is
  \<open>100 - 100 / (1 + average gain / average loss)\<close>. Where the average loss is 0 the
  quotient has no value and the RSI is 100, the limit of the formula and Wilder's
  convention, so that every position from the period on is defined.
\<close>

fun changes :: "real list \<Rightarrow> real list" where
  "changes (a # b # cs) = (b - a) # changes (b # cs)"
| "changes cs = []"

definition gain :: "real \<Rightarrow> real" where
  "gain d = max d 0"

definition loss :: "real \<Rightarrow> real" where
  "loss d = max (- d) 0"

fun wilder :: "nat \<Rightarrow> real \<Rightarrow> real list \<Rightarrow> real list" where
  "wilder n avg [] = []"
| "wilder n avg (x # xs) =
     (let avg' = (avg * real (n - 1) + x) / real n in avg' # wilder n avg' xs)"

definition smoothed :: "nat \<Rightarrow> real list \<Rightarrow> real list" where
  "smoothed n xs =
     (if n = 0 \<or> length xs < n then []
      else (let seed = sum_list (take n xs) / real n in seed # wilder n seed (drop n xs)))"

definition rsi_value :: "real \<Rightarrow> real \<Rightarrow> line_value" where
  "rsi_value avg_gain avg_loss =
     (if avg_loss = 0 then Some 100 else Some (100 - 100 / (1 + avg_gain / avg_loss)))"

definition rsi :: "nat \<Rightarrow> real list \<Rightarrow> line_value list" where
  "rsi n cs =
     (if n = 0 then replicate (length cs) None
      else take (length cs)
             (replicate n None
              @ map2 rsi_value (smoothed n (map gain (changes cs)))
                               (smoothed n (map loss (changes cs)))))"

section \<open>Properties\<close>

lemmas view_defs = macd_cross_up_def macd_cross_down_def kd_cross_up_def kd_cross_down_def
  buy_conditions_def sell_conditions_def any_py_def

lemmas float_defs = position_sizer_def sizer_quotient_def buffer_1_01_def fmul_def
  to_double_def binade_def pow2_def round_half_even_def Let_def

lemma lt_line_simps [simp]:
  "lt_line None b = False" "lt_line a None = False" "lt_line (Some x) (Some y) = (x < y)"
  by (auto simp: lt_line_def split: option.splits)

lemma gt_line_simps [simp]:
  "gt_line None b = False" "gt_line a None = False" "gt_line (Some x) (Some y) = (y < x)"
  by (auto simp: gt_line_def split: option.splits)

lemma any_py_Cons [simp]: "any_py (b # bs) = (b \<or> any_py bs)" "any_py [] = False"
  by (simp_all add: any_py_def)

lemma bit_length_numeral [simp]:
  "bit_length 0 = 0"
  "bit_length (Suc 0) = 1"
  "bit_length (numeral k) = Suc (bit_length (numeral k div 2))"
  by (simp_all add: bit_length.simps)

lemma max_trunc_floor:
  "max 1 (if 0 \<le> x then \<lfloor>x\<rfloor> else \<lceil>x\<rceil>) = max 1 \<lfloor>x::real\<rfloor>"
  by (auto simp: max_def)

lemma position_sizer_floor:
  "sizer_quotient p v = Inr (Fin q) \<Longrightarrow> position_sizer p v = Inr (max 1 \<lfloor>q\<rfloor>)"
  by (simp add: position_sizer_def max_trunc_floor)

lemma next_bar_flat:
  "order s = None \<Longrightarrow> position_size v = 0 \<Longrightarrow>
   next_bar p v s =
     (if any_py (buy_conditions p v) then
        (if 0 < close v then
           (case position_sizer p v of
              Inl err \<Rightarrow> Inl err
            | Inr sz \<Rightarrow>
                Inr (record_value v
                      ((log_line (BuyCreate (close v)) s)\<lparr> order := Some (buy sz) \<rparr>)))
         else Inr (log_line InvalidPrice (log_line (BuyCreate (close v)) s)))
      else Inr (record_value v s))"
  by (simp add: next_bar_def Let_def)

lemma next_bar_in_market:
  "order s = None \<Longrightarrow> position_size v \<noteq> 0 \<Longrightarrow>
   next_bar p v s =
     (if any_py (sell_conditions p v) then
        Inr (record_value v
              ((log_line (SellCreate (close v)) s)\<lparr> order := Some (sell (position_size v)) \<rparr>))
      else Inr (record_value v s))"
  by (simp add: next_bar_def)

lemma next_bar_pending: "order s \<noteq> None \<Longrightarrow> next_bar p v s = Inr s"
  by (simp add: next_bar_def)

lemma order_record_value [simp]: "order (record_value v s) = order s"
  by (simp add: record_value_def)

lemma order_log_line [simp]: "order (log_line e s) = order s"
  by (simp add: log_line_def)

subsection \<open>The exponent of a float\<close>

text \<open>
  \<open>binade x\<close> is the exponent of the power of two at or below \<open>x\<close>, for \<open>x\<close> from 1 on
  and for \<open>x\<close> below 1.
\<close>

lemma bit_length_bounds:
  "0 < n \<Longrightarrow> 2 ^ (bit_length n - 1) \<le> n \<and> n < 2 ^ bit_length n"
proof (induction n rule: bit_length.induct)
  case (1 n)
  show ?case
  proof (cases "n div 2 = 0")
    case True
    with "1.prems" have "n = 1" by (cases n) auto
    then show ?thesis by (simp add: bit_length.simps)
  next
    case False
    then have h: "0 < n div 2" by simp
    have n0: "n \<noteq> 0" using "1.prems" by simp
    have ih: "2 ^ (bit_length (n div 2) - 1) \<le> n div 2 \<and> n div 2 < 2 ^ bit_length (n div 2)"
      using "1.IH" [OF n0 h] .
    have b: "bit_length n = Suc (bit_length (n div 2))"
      using n0 by (subst bit_length.simps) simp
    have p: "0 < bit_length (n div 2)"
      using h by (subst bit_length.simps) simp
    then obtain m where m: "bit_length (n div 2) = Suc m"
      by (cases "bit_length (n div 2)") auto
    from ih m have "2 ^ m \<le> n div 2" and "n div 2 < 2 ^ Suc m" by simp_all
    then have "2 * 2 ^ m \<le> n" and "n < 2 * 2 ^ Suc m" by linarith+
    then show ?thesis by (simp add: b m)
  qed
qed

lemma bit_length_unique:
  assumes "2 ^ k \<le> n" and "n < 2 ^ Suc k"
  shows "bit_length n = Suc k"
proof -
  have pos: "0 < n"
    using assms(1) by (cases n) simp_all
  let ?b = "bit_length n"
  have b: "2 ^ (?b - 1) \<le> n" "n < 2 ^ ?b"
    using bit_length_bounds [OF pos] by simp_all
  have "(2::nat) ^ k < 2 ^ ?b" using assms(1) b(2) by linarith
  then have 1: "k < ?b" by (rule power_less_imp_less_exp [rotated]) simp
  have "(2::nat) ^ (?b - 1) < 2 ^ Suc k" using assms(2) b(1) by linarith
  then have 2: "?b - 1 < Suc k" by (rule power_less_imp_less_exp [rotated]) simp
  show ?thesis using 1 2 by linarith
qed

lemma binade_ge1:
  assumes "2 ^ k \<le> x" and "x < 2 ^ Suc k"
  shows "binade x = int k"
proof -
  have x1: "1 \<le> x"
    using assms(1) one_le_power [of "2::real" k] by linarith
  have "(2::int) ^ k \<le> \<lfloor>x\<rfloor>"
    using assms(1) by (simp add: le_floor_iff)
  then have a: "2 ^ k \<le> nat \<lfloor>x\<rfloor>"
    by (simp add: le_nat_iff)
  have "\<lfloor>x\<rfloor> < 2 ^ Suc k"
    using assms(2) by (simp add: floor_less_iff)
  then have b: "nat \<lfloor>x\<rfloor> < 2 ^ Suc k"
    using x1 by (simp add: nat_less_iff)
  show ?thesis
    using x1 bit_length_unique [OF a b] by (simp add: binade_def)
qed

lemma binade_lt1:
  assumes "1 / 2 ^ Suc k \<le> x" and "x < 1 / 2 ^ k"
  shows "binade x = - int (Suc k)"
proof -
  have "0 < 1 / (2::real) ^ Suc k"
    by simp
  then have xpos: "0 < x"
    using assms(1) by linarith
  have "1 / (2::real) ^ k \<le> 1"
    by (simp add: divide_le_eq_1)
  then have x1: "x < 1"
    using assms(2) by linarith
  let ?y = "1 / x"
  have y_hi: "?y \<le> 2 ^ Suc k"
    using assms(1) xpos by (simp add: field_simps)
  have y_lo: "2 ^ k < ?y"
    using assms(2) xpos by (simp add: field_simps)
  have "\<lceil>?y\<rceil> \<le> 2 ^ Suc k"
    using y_hi by (simp add: ceiling_le_iff)
  then have b: "nat (\<lceil>?y\<rceil> - 1) < 2 ^ Suc k"
    using xpos by (simp add: nat_less_iff)
  have "(2::int) ^ k < \<lceil>?y\<rceil>"
    using y_lo by (simp add: less_ceiling_iff)
  then have a: "2 ^ k \<le> nat (\<lceil>?y\<rceil> - 1)"
    by (simp add: le_nat_iff)
  show ?thesis
    using x1 bit_length_unique [OF a b] by (simp add: binade_def)
qed

lemma literal_0_02: "to_double (2 / 100) = Fin (risk_percent default_params)"
  by (simp add: to_double_def pow2_def round_half_even_def Let_def default_params_def
      binade_lt1 [where k = 5])

lemma literal_1_01: "to_double (101 / 100) = Fin buffer_1_01"
  by (simp add: to_double_def pow2_def round_half_even_def Let_def buffer_1_01_def
      binade_ge1 [where k = 0])

lemma sizer_v_buy: "position_sizer default_params v_buy = Inr 19"
  by (simp add: float_defs default_params_def v_buy_def)

lemma sizer_v_round: "position_sizer default_params v_round = Inr 5"
  by (simp add: float_defs default_params_def v_round_def)

lemma quotient_v_buy:
  "sizer_quotient default_params v_buy = Inr (Fin (5573761915062495 / 281474976710656))"
  by (simp add: float_defs default_params_def v_buy_def)

lemma sizer_v_tiny: "position_sizer default_params v_tiny = Inl OverflowError"
proof -
  have a: "fmul (broker_value v_tiny) (risk_percent default_params) = Fin 2000"
    by (simp add: fmul_def to_double_def pow2_def round_half_even_def Let_def
        v_tiny_def default_params_def binade_ge1 [where k = 10])
  have b: "fmul (close v_tiny) buffer_1_01 = Fin (16548 / 2 ^ 1074)"
    by (simp add: fmul_def to_double_def pow2_def round_half_even_def Let_def
        v_tiny_def buffer_1_01_def binade_lt1 [where k = 1059])
  have c: "fdiv (Fin 2000) (Fin (16548 / 2 ^ 1074)) = Inr PosInf"
    by (simp add: to_double_def pow2_def round_half_even_def Let_def
        binade_ge1 [where k = 1070])
  show ?thesis
    by (simp only: position_sizer_def sizer_quotient_def Let_def a b c sum.case py_int.simps)
qed

subsection \<open>The size of a Buy order\<close>

text \<open>
  Claim C2, as stated, fails for the value of the size: the quotient is computed in floats.
  With an equity of 909 and a close of 3 the exact quotient is 6, the three rounded
  operations give a double just below 6, and the order created is for 5. With the positive
  close \<open>2 ^ -1060\<close> the quotient is an infinity, on which \<open>int\<close> raises.
\<close>

theorem exact_floor_counterexample:
  "order init_strategy = None \<and> position_size v_round = 0
   \<and> any_py (buy_conditions default_params v_round) \<and> 0 < close v_round
   \<and> max 1 \<lfloor>broker_value v_round * (2 / 100) / (close v_round * (101 / 100))\<rfloor> = (6::int)
   \<and> next_bar default_params v_round init_strategy
       = Inr (record_value v_round
               ((log_line (BuyCreate 3) init_strategy)\<lparr> order := Some (buy 5) \<rparr>))
   \<and> position_size v_tiny = 0 \<and> any_py (buy_conditions default_params v_tiny)
   \<and> 0 < close v_tiny
   \<and> next_bar default_params v_tiny init_strategy = Inl OverflowError"
proof -
  have f: "order init_strategy = None" "position_size v_round = 0"
    "any_py (buy_conditions default_params v_round)" "close v_round = 3"
    "position_size v_tiny = 0" "any_py (buy_conditions default_params v_tiny)"
    "0 < close v_tiny"
    by (simp_all add: v_round_def v_tiny_def init_strategy_def default_params_def view_defs)
  have "next_bar default_params v_tiny init_strategy = Inl OverflowError"
    using f by (simp add: next_bar_flat sizer_v_tiny)
  moreover have "next_bar default_params v_round init_strategy
          = Inr (record_value v_round
                  ((log_line (BuyCreate 3) init_strategy)\<lparr> order := Some (buy 5) \<rparr>))"
    using f by (simp add: next_bar_flat sizer_v_round)
  moreover have "max 1 \<lfloor>broker_value v_round * (2 / 100) / (close v_round * (101 / 100))\<rfloor>
                   = (6::int)"
    by (simp add: v_round_def)
  ultimately show ?thesis
    using f by simp
qed

text \<open>
  Claim C2, amended. In a flat state with no pending order and a buy signal: for a positive
  close, when the quotient \<open>equity * risk_percent / (close * 1.01)\<close> computed in floats is a
  finite \<open>q\<close>, the order created has size \<open>max(1, floor(q))\<close>, which is at least 1; for a
  close that is not positive no order is created, \<open>next\<close> returns normally and only the two
  log lines are added, so the following bars are handled as usual.
\<close>

theorem sizer_floor_of_float_quotient:
  assumes "order s = None" and "position_size v = 0" and "any_py (buy_conditions p v)"
  shows "(0 < close v \<and> sizer_quotient p v = Inr (Fin q) \<longrightarrow>
            next_bar p v s
              = Inr (record_value v
                      ((log_line (BuyCreate (close v)) s)\<lparr> order := Some (buy (max 1 \<lfloor>q\<rfloor>)) \<rparr>))
            \<and> 1 \<le> max 1 \<lfloor>q\<rfloor>)
       \<and> (close v \<le> 0 \<longrightarrow>
            next_bar p v s = Inr (s\<lparr> logs := logs s @ [BuyCreate (close v), InvalidPrice] \<rparr>))"
  using assms by (auto simp: next_bar_flat position_sizer_floor log_line_def)

theorem sizer_floor_of_float_quotient_witness:
  "order init_strategy = None \<and> position_size v_buy = 0
   \<and> any_py (buy_conditions default_params v_buy) \<and> 0 < close v_buy
   \<and> sizer_quotient default_params v_buy = Inr (Fin (5573761915062495 / 281474976710656))
   \<and> next_bar default_params v_buy init_strategy
       = Inr (record_value v_buy
               ((log_line (BuyCreate 100) init_strategy)\<lparr> order := Some (buy 19) \<rparr>))
   \<and> position_size v_skip = 0 \<and> any_py (buy_conditions default_params v_skip)
   \<and> close v_skip \<le> 0
   \<and> next_bar default_params v_skip init_strategy
       = Inr (init_strategy\<lparr> logs := [BuyCreate 0, InvalidPrice] \<rparr>)"
proof -
  have f: "order init_strategy = None" "position_size v_buy = 0"
    "any_py (buy_conditions default_params v_buy)" "close v_buy = 100"
    "position_size v_skip = 0" "any_py (buy_conditions default_params v_skip)"
    "close v_skip = 0" "logs init_strategy = []"
    by (simp_all add: v_buy_def v_skip_def init_strategy_def default_params_def view_defs)
  show ?thesis
    using sizer_floor_of_float_quotient [of init_strategy v_buy default_params
        "5573761915062495 / 281474976710656"]
      sizer_floor_of_float_quotient [of init_strategy v_skip default_params 0]
    by (simp add: f quotient_v_buy)
qed

subsection \<open>Signals and orders\<close>

text \<open>
  Claim C5. A crossover condition, of MACD against its signal line or of slowK against slowD,
  is false as soon as one of the four values it compares is undefined; the signal of that
  bar is then decided by the three other conditions alone. Where the RSI and the bands are
  undefined as well, no condition holds and \<open>next\<close> creates no order.
\<close>

theorem crossover_needs_defined_values:
  "((macd_prev v = None \<or> macdsignal_prev v = None \<or> macd_cur v = None \<or> macdsignal_cur v = None)
      \<longrightarrow> \<not> macd_cross_up v \<and> \<not> macd_cross_down v
        \<and> any_py (buy_conditions p v) =
            (lt_line (rsi_cur v) (Some (rsi_lower p)) \<or> kd_cross_up v
              \<or> lt_line (Some (close v)) (boll_bot v))
        \<and> any_py (sell_conditions p v) =
            (gt_line (rsi_cur v) (Some (rsi_upper p)) \<or> kd_cross_down v
              \<or> gt_line (Some (close v)) (boll_top v)))
   \<and> ((k_prev v = None \<or> d_prev v = None \<or> k_cur v = None \<or> d_cur v = None)
      \<longrightarrow> \<not> kd_cross_up v \<and> \<not> kd_cross_down v
        \<and> any_py (buy_conditions p v) =
            (macd_cross_up v \<or> lt_line (rsi_cur v) (Some (rsi_lower p))
              \<or> lt_line (Some (close v)) (boll_bot v))
        \<and> any_py (sell_conditions p v) =
            (macd_cross_down v \<or> gt_line (rsi_cur v) (Some (rsi_upper p))
              \<or> gt_line (Some (close v)) (boll_top v)))
   \<and> ((macd_prev v = None \<or> macdsignal_prev v = None \<or> macd_cur v = None \<or> macdsignal_cur v = None)
        \<and> (k_prev v = None \<or> d_prev v = None \<or> k_cur v = None \<or> d_cur v = None)
        \<and> rsi_cur v = None \<and> boll_bot v = None \<and> boll_top v = None
      \<longrightarrow> \<not> any_py (buy_conditions p v) \<and> \<not> any_py (sell_conditions p v)
        \<and> (\<exists>s'. next_bar p v s = Inr s' \<and> order s' = order s))"
proof -
  have m: "\<not> macd_cross_up v \<and> \<not> macd_cross_down v"
    if "macd_prev v = None \<or> macdsignal_prev v = None \<or> macd_cur v = None \<or> macdsignal_cur v = None"
    using that unfolding macd_cross_up_def macd_cross_down_def by auto
  have k: "\<not> kd_cross_up v \<and> \<not> kd_cross_down v"
    if "k_prev v = None \<or> d_prev v = None \<or> k_cur v = None \<or> d_cur v = None"
    using that unfolding kd_cross_up_def kd_cross_down_def by auto
  have n: "\<exists>s'. next_bar p v s = Inr s' \<and> order s' = order s"
    if "\<not> any_py (buy_conditions p v)" and "\<not> any_py (sell_conditions p v)"
    using that by (simp add: next_bar_def)
  have a: "\<not> any_py (buy_conditions p v) \<and> \<not> any_py (sell_conditions p v)"
    if "\<not> macd_cross_up v \<and> \<not> macd_cross_down v" and "\<not> kd_cross_up v \<and> \<not> kd_cross_down v"
      and "rsi_cur v = None" and "boll_bot v = None" and "boll_top v = None"
    using that by (simp add: buy_conditions_def sell_conditions_def)
  have c1: "any_py (buy_conditions p v) =
            (lt_line (rsi_cur v) (Some (rsi_lower p)) \<or> kd_cross_up v
              \<or> lt_line (Some (close v)) (boll_bot v))
        \<and> any_py (sell_conditions p v) =
            (gt_line (rsi_cur v) (Some (rsi_upper p)) \<or> kd_cross_down v
              \<or> gt_line (Some (close v)) (boll_top v))"
    if "\<not> macd_cross_up v \<and> \<not> macd_cross_down v"
    using that by (simp add: buy_conditions_def sell_conditions_def)
  have c2: "any_py (buy_conditions p v) =
            (macd_cross_up v \<or> lt_line (rsi_cur v) (Some (rsi_lower p))
              \<or> lt_line (Some (close v)) (boll_bot v))
        \<and> any_py (sell_conditions p v) =
            (macd_cross_down v \<or> gt_line (rsi_cur v) (Some (rsi_upper p))
              \<or> gt_line (Some (close v)) (boll_top v))"
    if "\<not> kd_cross_up v \<and> \<not> kd_cross_down v"
    using that by (simp add: buy_conditions_def sell_conditions_def)
  show ?thesis
    using m k n a c1 c2 by blast
qed

theorem crossover_needs_defined_values_witness:
  "macd_prev v_warmup = None \<and> k_prev v_warmup = None
   \<and> \<not> macd_cross_up v_warmup \<and> \<not> kd_cross_up v_warmup
   \<and> \<not> any_py (buy_conditions default_params v_warmup)
   \<and> next_bar default_params v_warmup init_strategy = Inr (record_value v_warmup init_strategy)"
  using crossover_needs_defined_values [of v_warmup default_params init_strategy]
  by (simp add: v_warmup_def init_strategy_def next_bar_def record_value_def)

text \<open>
  Claim C3, as stated, fails in the buy branch: with a flat position, no pending order and
  an RSI below the lower threshold, a close of 0 takes the branch that logs the invalid
  price and returns, and no order is created.
\<close>

theorem buy_signal_without_order_counterexample:
  "order init_strategy = None \<and> position_size v_skip = 0
   \<and> lt_line (rsi_cur v_skip) (Some (rsi_lower default_params))
   \<and> next_bar default_params v_skip init_strategy
       = Inr (init_strategy\<lparr> logs := [BuyCreate 0, InvalidPrice] \<rparr>)
   \<and> order (init_strategy\<lparr> logs := [BuyCreate 0, InvalidPrice] \<rparr>) = None"
  by (simp add: v_skip_def init_strategy_def default_params_def next_bar_def
      buy_conditions_def log_line_def)

text \<open>
  Claim C3, amended. With no order pending: in a flat position \<open>next\<close> creates a Buy order if
  and only if one of the four buy conditions holds and the close is positive, unless the
  computation of the size raises, in which case \<open>next\<close> raises and creates nothing; in a
  long position a Sell order for the position is created if and only if one of the four sell
  conditions holds.
\<close>

theorem order_created_iff_signal:
  assumes "order s = None"
  shows "(position_size v = 0 \<longrightarrow>
            (if (macd_cross_up v \<or> lt_line (rsi_cur v) (Some (rsi_lower p)) \<or> kd_cross_up v
                  \<or> lt_line (Some (close v)) (boll_bot v)) \<and> 0 < close v
             then (case position_sizer p v of
                     Inl err \<Rightarrow> next_bar p v s = Inl err
                   | Inr sz \<Rightarrow> (\<exists>s'. next_bar p v s = Inr s' \<and> order s' = Some (buy sz)))
             else (\<exists>s'. next_bar p v s = Inr s' \<and> order s' = None)))
       \<and> (0 < position_size v \<longrightarrow>
            (\<exists>s'. next_bar p v s = Inr s'
               \<and> order s' =
                   (if macd_cross_down v \<or> gt_line (rsi_cur v) (Some (rsi_upper p))
                       \<or> kd_cross_down v \<or> gt_line (Some (close v)) (boll_top v)
                    then Some (sell (position_size v)) else None)))"
  using assms
  by (auto simp: next_bar_flat next_bar_in_market buy_conditions_def sell_conditions_def
      split: sum.splits)

theorem order_created_iff_signal_witness:
  "order init_strategy = None \<and> position_size v_buy = 0 \<and> 0 < position_size v_sell
   \<and> position_sizer default_params v_buy = Inr 19
   \<and> next_bar default_params v_buy init_strategy
       = Inr (record_value v_buy
               ((log_line (BuyCreate 100) init_strategy)\<lparr> order := Some (buy 19) \<rparr>))
   \<and> next_bar default_params v_sell init_strategy
       = Inr (record_value v_sell
               ((log_line (SellCreate 120) init_strategy)\<lparr> order := Some (sell 19) \<rparr>))
   \<and> position_size v_tiny = 0 \<and> position_sizer default_params v_tiny = Inl OverflowError
   \<and> next_bar default_params v_tiny init_strategy = Inl OverflowError"
proof -
  have f: "order init_strategy = None" "position_size v_buy = 0" "position_size v_sell = 19"
    "any_py (buy_conditions default_params v_buy)" "close v_buy = 100"
    "any_py (sell_conditions default_params v_sell)" "close v_sell = 120"
    "position_size v_tiny = 0" "any_py (buy_conditions default_params v_tiny)"
    "0 < close v_tiny"
    by (simp_all add: v_buy_def v_sell_def v_tiny_def init_strategy_def default_params_def
        view_defs)
  show ?thesis
    using order_created_iff_signal [of init_strategy v_buy default_params]
      order_created_iff_signal [of init_strategy v_sell default_params]
      order_created_iff_signal [of init_strategy v_tiny default_params]
    by (simp add: f sizer_v_buy sizer_v_tiny next_bar_flat next_bar_in_market)
qed

text \<open>
  Claim C1 at its failing inputs. A bar whose buy signal meets a close that is not positive
  leaves \<open>next\<close> before the two appends, and so does a bar on which an order is
  pending: the call adds nothing to \<open>portfolio_values\<close> and \<open>dates\<close>, and two bars
  leave one record.
\<close>

theorem bar_without_record:
  "order init_strategy = None
   \<and> next_bar default_params v_skip init_strategy
       = Inr (init_strategy\<lparr> logs := [BuyCreate 0, InvalidPrice] \<rparr>)
   \<and> portfolio_values (init_strategy\<lparr> logs := [BuyCreate 0, InvalidPrice] \<rparr>)
       = portfolio_values init_strategy
   \<and> dates (init_strategy\<lparr> logs := [BuyCreate 0, InvalidPrice] \<rparr>) = dates init_strategy
   \<and> next_bar default_params v_sell (init_strategy\<lparr> order := Some (buy 19) \<rparr>)
       = Inr (init_strategy\<lparr> order := Some (buy 19) \<rparr>)
   \<and> recorded (run default_params [Bar v_buy, Bar v_skip] init_strategy) = Inr [100000]"
proof -
  have f: "order init_strategy = None" "position_size v_buy = 0"
    "any_py (buy_conditions default_params v_buy)" "close v_buy = 100"
    "position_size v_skip = 0" "any_py (buy_conditions default_params v_skip)"
    "close v_skip = 0" "broker_value v_buy = 100000"
    by (simp_all add: v_buy_def v_skip_def init_strategy_def default_params_def view_defs)
  have b: "next_bar default_params v_buy init_strategy
             = Inr (record_value v_buy
                     ((log_line (BuyCreate 100) init_strategy)\<lparr> order := Some (buy 19) \<rparr>))"
    by (simp add: f sizer_v_buy next_bar_flat)
  have k: "next_bar default_params v_skip init_strategy
             = Inr (init_strategy\<lparr> logs := [BuyCreate 0, InvalidPrice] \<rparr>)"
    by (simp add: f next_bar_flat log_line_def) (simp add: init_strategy_def)
  show ?thesis
    by (simp add: k b next_bar_pending recorded_def f)
      (simp add: init_strategy_def record_value_def log_line_def f)
qed

text \<open>
  Claim C6. With no order pending, a long position and a sell signal, the Sell order created
  has the size of the whole position, so its fill leaves a position of 0; this holds in
  particular for the position that the fill of a Buy left.
\<close>

theorem sell_closes_position:
  assumes "order s = None" and "0 < position_size v" and "any_py (sell_conditions p v)"
  shows "next_bar p v s
           = Inr (record_value v
                   ((log_line (SellCreate (close v)) s)\<lparr> order := Some (sell (position_size v)) \<rparr>))
       \<and> order_size (sell (position_size v)) = position_size v
       \<and> fill_position (sell (position_size v)) (position_size v) = 0
       \<and> (\<forall>sz. 0 < sz \<and> position_size v = fill_position (buy sz) 0 \<longrightarrow>
            fill_position (sell (position_size v)) (fill_position (buy sz) 0) = 0)"
  using assms by (simp add: next_bar_in_market fill_position_def sell_def buy_def)

theorem sell_closes_position_witness:
  "order init_strategy = None \<and> 0 < position_size v_sell
   \<and> any_py (sell_conditions default_params v_sell)
   \<and> position_size v_sell = fill_position (buy 19) 0
   \<and> next_bar default_params v_sell init_strategy
       = Inr (record_value v_sell
               ((log_line (SellCreate 120) init_strategy)\<lparr> order := Some (sell 19) \<rparr>))
   \<and> fill_position (sell 19) (fill_position (buy 19) 0) = 0"
proof -
  have f: "order init_strategy = None" "position_size v_sell = 19"
    "any_py (sell_conditions default_params v_sell)" "close v_sell = 120"
    by (simp_all add: v_sell_def init_strategy_def default_params_def view_defs)
  show ?thesis
    using sell_closes_position [of init_strategy v_sell default_params]
    by (simp add: f fill_position_def buy_def sell_def)
qed

subsection \<open>The J line\<close>

lemma views_set_j:
  "buy_conditions p (v\<lparr> j_cur := x \<rparr>) = buy_conditions p v"
  "sell_conditions p (v\<lparr> j_cur := x \<rparr>) = sell_conditions p v"
  "position_sizer p (v\<lparr> j_cur := x \<rparr>) = position_sizer p v"
  "record_value (v\<lparr> j_cur := x \<rparr>) s = record_value v s"
  by (simp_all add: buy_conditions_def sell_conditions_def macd_cross_up_def
      macd_cross_down_def kd_cross_up_def kd_cross_down_def record_value_def
      position_sizer_def sizer_quotient_def)

lemma next_bar_set_j: "next_bar p (v\<lparr> j_cur := x \<rparr>) s = next_bar p v s"
  by (simp add: next_bar_def views_set_j Let_def split: sum.splits)

lemma step_set_j: "step p s (set_j f e) = step p s e"
  by (cases e) (simp_all add: next_bar_set_j)

lemma new_order_set_j: "new_order p s (set_j f e) = new_order p s e"
  by (cases e) (simp_all add: next_bar_set_j)

text \<open>
  Claim C10. \<open>next\<close> never reads the J line: replacing its value at every bar by anything
  else, or by NaN, leaves the outcome of each call, the outcome of a run, the orders
  created during the run and the recorded portfolio values the same.
\<close>

theorem j_line_never_read:
  "next_bar p (v\<lparr> j_cur := x \<rparr>) s = next_bar p v s
   \<and> run p (map (set_j f) es) s = run p es s
   \<and> orders_created p s (map (set_j f) es) = orders_created p s es
   \<and> recorded (run p (map (set_j f) es) s) = recorded (run p es s)"
proof -
  have r: "run p (map (set_j f) es) s = run p es s" for s
    by (induction es arbitrary: s) (simp_all add: step_set_j split: sum.splits)
  have c: "orders_created p s (map (set_j f) es) = orders_created p s es" for s
    by (induction es arbitrary: s) (simp_all add: step_set_j new_order_set_j split: sum.splits)
  show ?thesis
    by (simp add: next_bar_set_j r c)
qed

subsection \<open>The order slot\<close>

lemma order_notify_order:
  "order (notify_order l n s) = (if status n \<in> {Submitted, Accepted} then order s else None)"
  by (simp add: notify_order_def Let_def)

lemma new_order_pending: "order s \<noteq> None \<Longrightarrow> new_order p s (Bar v) = None"
  by (cases "order s") simp_all

lemma outstanding_step:
  assumes "market_notice e" and "k = (if order s = None then 0 else 1)"
    and "step p s e = Inr s'"
  shows "(case e of
            Bar v \<Rightarrow> (if new_order p s e = None then k else k + 1)
          | Notify len_self n \<Rightarrow> (if ended (status n) then k - 1 else k))
         = (if order s' = None then 0 else (1::nat))"
proof (cases e)
  case (Notify l n)
  with assms(1) have "status n \<in> {Submitted, Accepted, Completed, Canceled, Margin, Rejected}"
    by simp
  moreover have "s' = notify_order l n s"
    using assms(3) Notify by simp
  ultimately show ?thesis
    using Notify assms(2) by (auto simp: order_notify_order ended_def)
next
  case (Bar v)
  show ?thesis
  proof (cases "order s = None")
    case True
    then show ?thesis using Bar assms(2,3) by simp
  next
    case False
    then have "s' = s" using Bar assms(3) by (simp add: next_bar_pending)
    with False show ?thesis using Bar assms(2) by (auto simp: next_bar_pending)
  qed
qed

lemma outstanding_first:
  assumes "market_notice e" and "k = (if order s = None then 0 else 1)"
  shows "(case e of
            Bar v \<Rightarrow> (if new_order p s e = None then k else k + 1)
          | Notify len_self n \<Rightarrow> (if ended (status n) then k - 1 else k)) \<le> (1::nat)"
proof (cases e)
  case (Notify l n)
  then show ?thesis using assms(2) by simp
next
  case (Bar v)
  then show ?thesis using assms(2) by (cases "order s") simp_all
qed

lemma outstanding_le_1:
  "\<forall>e \<in> set es. market_notice e \<Longrightarrow> k = (if order s = None then 0 else 1) \<Longrightarrow>
   \<forall>j \<in> set (outstanding p s k es). j \<le> 1"
proof (induction es arbitrary: s k)
  case Nil
  then show ?case by simp
next
  case (Cons e es)
  define k' where "k' = (case e of
                  Bar v \<Rightarrow> (if new_order p s e = None then k else k + 1)
                | Notify len_self n \<Rightarrow> (if ended (status n) then k - 1 else k))"
  have w: "market_notice e" and ws: "\<forall>e \<in> set es. market_notice e"
    using Cons.prems(1) by simp_all
  have le: "k' \<le> 1"
    unfolding k'_def using outstanding_first [OF w Cons.prems(2)] .
  show ?case
  proof (cases "step p s e")
    case (Inl err)
    with le show ?thesis by (simp add: Let_def k'_def)
  next
    case (Inr s')
    have inv: "k' = (if order s' = None then 0 else 1)"
      unfolding k'_def using outstanding_step [OF w Cons.prems(2) Inr] .
    have "\<forall>j \<in> set (outstanding p s' k' es). j \<le> 1"
      using Cons.IH [OF ws inv] .
    with le Inr show ?thesis by (simp add: Let_def k'_def)
  qed
qed

text \<open>
  Claim C4. In every run from the initial state at most one order is outstanding after
  every event. While an order is pending \<open>next\<close> changes nothing and creates no order,
  whatever the signals. A notification clears the pending slot when the order has completed
  or was canceled, refused for margin or rejected, and leaves it as it is when the order
  was submitted or accepted.
\<close>

theorem one_order_outstanding:
  assumes "\<forall>e \<in> set es. market_notice e"
  shows "(\<forall>j \<in> set (outstanding p init_strategy 0 es). j \<le> 1)
       \<and> (order s \<noteq> None \<longrightarrow> next_bar p v s = Inr s \<and> new_order p s (Bar v) = None)
       \<and> (market_notice (Notify l n) \<longrightarrow>
            order (notify_order l n s)
              = (if status n \<in> {Completed, Canceled, Margin, Rejected} then None else order s))"
proof -
  have "\<forall>j \<in> set (outstanding p init_strategy 0 es). j \<le> 1"
    using outstanding_le_1 [OF assms, of 0 init_strategy p] by (simp add: init_strategy_def)
  then show ?thesis
    by (auto simp: order_notify_order next_bar_pending new_order_pending)
qed

theorem one_order_outstanding_witness:
  "market_notice (Bar v_buy) \<and> market_notice (Bar v_sell) \<and> market_notice (Notify 36 n_completed)
   \<and> outstanding default_params init_strategy 0
        [Bar v_buy, Bar v_sell, Notify 36 n_completed, Bar v_sell] = [1, 1, 0, 1]
   \<and> next_bar default_params v_sell
        (record_value v_buy ((log_line (BuyCreate 100) init_strategy)\<lparr> order := Some (buy 19) \<rparr>))
       = Inr (record_value v_buy
               ((log_line (BuyCreate 100) init_strategy)\<lparr> order := Some (buy 19) \<rparr>))
   \<and> order (notify_order 36 n_completed
        (record_value v_buy ((log_line (BuyCreate 100) init_strategy)\<lparr> order := Some (buy 19) \<rparr>)))
       = None"
proof -
  have f: "order init_strategy = None" "position_size v_buy = 0" "position_size v_sell = 19"
    "any_py (buy_conditions default_params v_buy)" "close v_buy = 100"
    "any_py (sell_conditions default_params v_sell)" "status n_completed = Completed"
    by (simp_all add: v_buy_def v_sell_def n_completed_def init_strategy_def default_params_def
        view_defs)
  have b: "next_bar default_params v_buy init_strategy
             = Inr (record_value v_buy
                     ((log_line (BuyCreate 100) init_strategy)\<lparr> order := Some (buy 19) \<rparr>))"
    by (simp add: f sizer_v_buy next_bar_flat)
  show ?thesis
    using one_order_outstanding [of "[Bar v_buy, Bar v_sell, Notify 36 n_completed, Bar v_sell]"
        default_params
        "record_value v_buy ((log_line (BuyCreate 100) init_strategy)\<lparr> order := Some (buy 19) \<rparr>)"
        v_sell 36 n_completed]
    by (simp add: f b next_bar_pending next_bar_in_market order_notify_order ended_def Let_def)
qed

subsection \<open>Starting a backtest\<close>

text \<open>
  Claim C7, as stated, fails: a series that holds a close and a volume of 0 and a negative
  low is not refused. \<open>run_backtest\<close> hands it to the engine as it is and calls
  \<open>cerebro.run()\<close> on it.
\<close>

theorem invalid_series_is_run_counterexample:
  "bad_rows \<noteq> [] \<and> Close (bad_rows ! 29) = 0 \<and> Volume (bad_rows ! 29) = 0
   \<and> Low (bad_rows ! 29) < 0
   \<and> before_run (Some bad_rows)
       = [AddStrategy, AddData bad_rows, SetCash 100000, AddSizer 10,
          SetCommission (1 / 1000), PrintStartValue, Run]"
proof -
  have n: "bad_rows \<noteq> []"
    by (simp add: bad_rows_def)
  have r: "bad_rows ! 29 = bad_row 30"
    by (simp add: bad_rows_def)
  show ?thesis
    using n by (simp add: r before_run_def) (simp add: bad_row_def)
qed

text \<open>
  Claim C7, amended. The backtest run refuses to start exactly when the fetched series is
  missing or empty: then it only prints, and neither data nor a run reach the engine. Every
  other series is handed unchanged to the engine, whatever its order, prices and volumes,
  and \<open>cerebro.run()\<close> is called on it.
\<close>

theorem runs_unless_no_data:
  "(Run \<in> set (run_backtest df res)) = (df \<noteq> None \<and> df \<noteq> Some [])
   \<and> (df = None \<or> df = Some [] \<longrightarrow> run_backtest df res = [AddStrategy, PrintNoData])
   \<and> (\<forall>rows. df = Some rows \<and> rows \<noteq> [] \<longrightarrow>
         run_backtest df res
           = [AddStrategy, AddData rows, SetCash 100000, AddSizer 10,
              SetCommission (1 / 1000), PrintStartValue, Run] @ after_run res)"
  by (auto simp: run_backtest_def before_run_def split: option.splits)

theorem runs_unless_no_data_witness:
  "bad_rows \<noteq> []
   \<and> run_backtest (Some bad_rows) (Inr init_strategy)
       = [AddStrategy, AddData bad_rows, SetCash 100000, AddSizer 10,
          SetCommission (1 / 1000), PrintStartValue, Run, PrintFinalValue, Plot, PrintNoValues]
   \<and> run_backtest None (Inr init_strategy) = [AddStrategy, PrintNoData]
   \<and> run_backtest (Some []) (Inr init_strategy) = [AddStrategy, PrintNoData]"
proof -
  have n: "bad_rows \<noteq> []"
    by (simp add: bad_rows_def)
  show ?thesis
    using runs_unless_no_data [of "Some bad_rows" "Inr init_strategy"]
      runs_unless_no_data [of None "Inr init_strategy"]
      runs_unless_no_data [of "Some []" "Inr init_strategy"]
    by (simp add: n after_run_def init_strategy_def)
qed

subsection \<open>The range of the RSI\<close>

lemma length_changes: "length (changes cs) = length cs - 1"
  by (induction cs rule: changes.induct) simp_all

lemma length_wilder: "length (wilder n avg xs) = length xs"
  by (induction xs arbitrary: avg) (simp_all add: Let_def)

lemma length_smoothed:
  "length (smoothed n xs) = (if n = 0 \<or> length xs < n then 0 else length xs - n + 1)"
  by (simp add: smoothed_def Let_def length_wilder)

lemma wilder_nonneg:
  "0 \<le> avg \<Longrightarrow> \<forall>x \<in> set xs. 0 \<le> x \<Longrightarrow> \<forall>y \<in> set (wilder n avg xs). 0 \<le> y"
proof (induction xs arbitrary: avg)
  case Nil
  then show ?case by simp
next
  case (Cons x xs)
  have a: "0 \<le> (avg * real (n - 1) + x) / real n"
    using Cons.prems by simp
  have r: "\<forall>x \<in> set xs. 0 \<le> x"
    using Cons.prems(2) by simp
  have "\<forall>y \<in> set (wilder n ((avg * real (n - 1) + x) / real n) xs). 0 \<le> y"
    using Cons.IH [OF a r] .
  with a show ?case
    by (simp add: Let_def)
qed

lemma smoothed_nonneg:
  assumes "\<forall>x \<in> set xs. 0 \<le> x"
  shows "\<forall>y \<in> set (smoothed n xs). 0 \<le> y"
proof -
  have t: "\<forall>x \<in> set (take n xs). 0 \<le> x" and d: "\<forall>x \<in> set (drop n xs). 0 \<le> x"
    using assms by (auto dest: in_set_takeD in_set_dropD)
  have seed: "0 \<le> sum_list (take n xs) / real n"
    using t by (simp add: sum_list_nonneg)
  show ?thesis
    using wilder_nonneg [OF seed d] seed by (simp add: smoothed_def Let_def)
qed

lemma rsi_value_bounds:
  assumes "0 \<le> u" and "0 \<le> d"
  shows "\<exists>r. rsi_value u d = Some r \<and> 0 \<le> r \<and> r \<le> 100"
proof (cases "d = 0")
  case True
  then show ?thesis by (simp add: rsi_value_def)
next
  case False
  then have dpos: "0 < d" using assms(2) by simp
  have q: "1 \<le> 1 + u / d"
    using assms(1) dpos by simp
  then have "100 / (1 + u / d) \<le> 100"
    by (simp add: divide_le_eq)
  moreover have "0 \<le> 100 / (1 + u / d)"
    using q by simp
  ultimately show ?thesis
    using False by (simp add: rsi_value_def)
qed

lemma gains_nonneg: "\<forall>x \<in> set (map gain ds). 0 \<le> x"
  by (simp add: gain_def)

lemma losses_nonneg: "\<forall>x \<in> set (map loss ds). 0 \<le> x"
  by (simp add: loss_def)

lemma length_rsi: "length (rsi n cs) = length cs"
  by (auto simp: rsi_def length_smoothed length_changes)

lemma rsi_warmup:
  assumes "i < length cs" and "i < n"
  shows "rsi n cs ! i = None"
  using assms by (simp add: rsi_def nth_append)

lemma rsi_defined:
  assumes "i < length cs" and "0 < n" and "n \<le> i"
  shows "\<exists>r. rsi n cs ! i = Some r \<and> 0 \<le> r \<and> r \<le> 100"
proof -
  let ?us = "smoothed n (map gain (changes cs))"
  let ?ds = "smoothed n (map loss (changes cs))"
  have len: "length ?us = length cs - n" "length ?ds = length cs - n"
    using assms by (auto simp: length_smoothed length_changes)
  have j: "i - n < length ?us" "i - n < length ?ds"
    using assms len by simp_all
  have e: "rsi n cs ! i = rsi_value (?us ! (i - n)) (?ds ! (i - n))"
    using assms j by (simp add: rsi_def nth_append)
  have "?us ! (i - n) \<in> set ?us" and "?ds ! (i - n) \<in> set ?ds"
    using j by simp_all
  then have "0 \<le> ?us ! (i - n)" and "0 \<le> ?ds ! (i - n)"
    using smoothed_nonneg [OF gains_nonneg] smoothed_nonneg [OF losses_nonneg] by blast+
  then show ?thesis
    using rsi_value_bounds e by simp
qed

text \<open>
  Claim C9. For every list of closes and every period, the RSI has one position for each
  close; the positions below the period are undefined, every position from the period on is
  defined, and every defined value lies between 0 and 100.
\<close>

theorem rsi_between_0_and_100:
  assumes "i < length cs"
  shows "length (rsi n cs) = length cs
       \<and> (i < n \<longrightarrow> rsi n cs ! i = None)
       \<and> (0 < n \<and> n \<le> i \<longrightarrow> rsi n cs ! i \<noteq> None)
       \<and> (\<forall>r. rsi n cs ! i = Some r \<longrightarrow> 0 \<le> r \<and> r \<le> 100)"
proof -
  have b: "0 \<le> r \<and> r \<le> 100" if "rsi n cs ! i = Some r" for r
  proof (cases "0 < n \<and> n \<le> i")
    case True
    then show ?thesis using rsi_defined [OF assms, of n] that by auto
  next
    case False
    then have "rsi n cs ! i = None"
      using assms rsi_warmup [OF assms, of n] by (cases "n = 0") (auto simp: rsi_def)
    with that show ?thesis by simp
  qed
  have d: "rsi n cs ! i \<noteq> None" if "0 < n \<and> n \<le> i"
    using rsi_defined [OF assms, of n] that by auto
  show ?thesis
    using b d rsi_warmup [OF assms] by (simp add: length_rsi)
qed

theorem rsi_between_0_and_100_witness:
  "(3::nat) < length [10, 11, 10, 12 :: real]
   \<and> rsi 2 [10, 11, 10, 12] = [None, None, Some 50, Some (250 / 3)]
   \<and> rsi 2 [10, 11, 12, 13] = [None, None, Some 100, Some 100]
   \<and> rsi 2 [10, 11, 12, 13] ! 3 = Some 100 \<and> (0::real) \<le> 100"
proof -
  have e: "rsi 2 [10, 11, 10, 12] = [None, None, Some 50, Some (250 / 3)]"
    by (simp add: rsi_def gain_def loss_def smoothed_def rsi_value_def Let_def)
  have g: "rsi 2 [10, 11, 12, 13] = [None, None, Some 100, Some 100]"
    by (simp add: rsi_def gain_def loss_def smoothed_def rsi_value_def Let_def)
  show ?thesis
    using rsi_between_0_and_100 [of 3 "[10, 11, 12, 13]" 2] by (simp add: e g)
qed

end
